theory Spec2Isabelle
  imports Main "HOL-Library.Word"
begin

section \<open>Splitting a block into shares (pkg/shares/share\_splitting.go)\<close>

subsection \<open>Data\<close>

type_synonym byte = "8 word"
type_synonym uint32 = "32 word"
type_synonym uint64 = "64 word"

text \<open>A transaction is raw bytes (\<open>coretypes.Tx\<close>); a namespace identifier is raw bytes too.\<close>

type_synonym Tx = "byte list"
type_synonym namespace_id = "byte list"

text \<open>
  The result of unwrapping a malleated transaction; \<open>InnerTx\<close> is its field \<open>Tx\<close>. Only
  \<open>ShareIndex\<close> is read here.
\<close>

record MalleatedTx =
  OriginalTxHash :: "byte list"
  InnerTx :: "byte list"
  ShareIndex :: uint32

record Message =
  NamespaceID :: namespace_id
  Data :: "byte list"

text \<open>
  \<open>coretypes.Data\<close>, named \<open>BlockData\<close> here because \<open>Data\<close> is also the payload of a
  message, with the two one-field wrappers flattened: \<open>Evidence\<close> is
  \<open>data.Evidence.Evidence\<close> and \<open>MessagesList\<close> is \<open>data.Messages.MessagesList\<close>.
  \<open>OriginalSquareSize\<close> is a \<open>uint64\<close> (the core types declare it; \<open>Split\<close> converts it
  with \<open>int(...)\<close> where it needs an \<open>int\<close>): its product wraps around at \<open>2 ^ 64\<close>.
\<close>

record 'ev BlockData =
  Txs :: "Tx list"
  Evidence :: "'ev list"
  MessagesList :: "Message list"
  OriginalSquareSize :: uint64

text \<open>A share with the namespace it is tagged with; \<open>RawShares\<close> keeps the bytes.\<close>

record NamespacedShare =
  Share :: "byte list"
  ID :: namespace_id

definition RawShares :: "NamespacedShare list \<Rightarrow> byte list list" where
  "RawShares shares = map Share shares"

text \<open>
  What a call returns besides shares. The first four are the error values of the source:
  the \<open>fmt.Errorf\<close> of the square size, the error of \<open>WriteEvidence\<close> handed on, and the
  two package variables. \<open>Panic\<close> is a run-time panic: no value is returned at all.
\<close>

datatype 'err error =
    ErrSquareSizeNotPowerOfTwo uint64
  | ErrEvidence 'err
  | ErrIncorrectNumberOfIndexes
  | ErrUnexpectedFirstMessageShareIndex
  | Panic

text \<open>The call returned a non-nil \<open>error\<close> (a panic returns nothing).\<close>

fun returns_error :: "'err error + 'a \<Rightarrow> bool" where
  "returns_error (Inl Panic) = False"
| "returns_error (Inl e) = True"
| "returns_error (Inr v) = False"

subsection \<open>Collaborators\<close>

text \<open>
  The functions and methods that \<open>share_splitting.go\<close> calls and that live in other files
  are parameters of the model, one field each. \<open>'css\<close> is the state of a
  \<open>ContiguousShareSplitter\<close>, \<open>'msw\<close> that of a \<open>MessageShareSplitter\<close>; a method that
  changes its receiver returns the new state. \<open>css_Export\<close> and \<open>msw_Export\<close> are the two
  \<open>Export\<close> methods. The three calls that take a number of shares as a Go \<open>int\<close> may
  panic (\<open>None\<close>): the source hands them differences that it does not check. Every
  other call is taken to return.
\<close>

record ('ev, 'err, 'css, 'msw) collaborators =
  TxNamespaceID :: namespace_id
  EvidenceNamespaceID :: namespace_id
  UnwrapMalleatedTx :: "Tx \<Rightarrow> MalleatedTx \<times> bool"
  NewContiguousShareSplitter :: "namespace_id \<Rightarrow> 'css"
  WriteTx :: "'css \<Rightarrow> Tx \<Rightarrow> 'css"
  WriteEvidence :: "'css \<Rightarrow> 'ev \<Rightarrow> 'err + 'css"
  css_Export :: "'css \<Rightarrow> NamespacedShare list"
  NewMessageShareSplitter :: "'msw"
  Write :: "'msw \<Rightarrow> Message \<Rightarrow> 'msw"
  Count :: "'msw \<Rightarrow> int"
  WriteNamespacedPaddedShares :: "'msw \<Rightarrow> int \<Rightarrow> 'msw option"
  msw_Export :: "'msw \<Rightarrow> NamespacedShare list"
  MsgSharesUsed :: "int \<Rightarrow> int"
  NextAlignedPowerOfTwo :: "int \<Rightarrow> int \<Rightarrow> int \<Rightarrow> int \<times> bool"
  namespacedPaddedShares :: "namespace_id \<Rightarrow> int \<Rightarrow> NamespacedShare list option"
  TailPaddingShares :: "int \<Rightarrow> NamespacedShare list option"

text \<open>
  Modelled from the spec: \<open>powerOf2\<close> is not under src/. The spec asks for a square size
  that is ``a power of two''; on 64 bits those are \<open>2 ^ k\<close> for \<open>k < 64\<close>.
\<close>

definition powerOf2 :: "uint64 \<Rightarrow> bool" where
  "powerOf2 v = (\<exists>k \<in> {..<64::nat}. v = 2 ^ k)"

subsection \<open>ExtractShareIndexes\<close>

text \<open>
  Lines 85 to 104. A Go slice of \<open>uint32\<close> is \<open>None\<close> when nil; \<open>append\<close> to a nil slice
  gives a slice that is not nil. The loop returns nil at the first wrapped transaction
  whose share index is 0.
\<close>

fun append_index :: "uint32 list option \<Rightarrow> uint32 \<Rightarrow> uint32 list option" where
  "append_index None x = Some [x]"
| "append_index (Some xs) x = Some (xs @ [x])"

fun ExtractShareIndexes_loop ::
  "('ev, 'err, 'css, 'msw) collaborators \<Rightarrow> uint32 list option \<Rightarrow> Tx list \<Rightarrow> uint32 list option"
where
  "ExtractShareIndexes_loop c msgIndexes [] = msgIndexes"
| "ExtractShareIndexes_loop c msgIndexes (rawTx # txs) =
     (case UnwrapMalleatedTx c rawTx of
        (malleatedTx, isMalleated) \<Rightarrow>
          if isMalleated then
            if ShareIndex malleatedTx = 0 then None
            else ExtractShareIndexes_loop c (append_index msgIndexes (ShareIndex malleatedTx)) txs
          else ExtractShareIndexes_loop c msgIndexes txs)"

definition ExtractShareIndexes ::
  "('ev, 'err, 'css, 'msw) collaborators \<Rightarrow> Tx list \<Rightarrow> uint32 list option"
where
  "ExtractShareIndexes c txs = ExtractShareIndexes_loop c None txs"

subsection \<open>SplitTxs and SplitEvidence\<close>

text \<open>
  Lines 106 to 124. Each creates a writer under its namespace, writes the items in order
  and exports the shares; \<open>SplitEvidence\<close> returns at the first error of \<open>WriteEvidence\<close>.
\<close>

definition SplitTxs ::
  "('ev, 'err, 'css, 'msw) collaborators \<Rightarrow> Tx list \<Rightarrow> byte list list"
where
  "SplitTxs c txs =
     RawShares (css_Export c (foldl (WriteTx c) (NewContiguousShareSplitter c (TxNamespaceID c)) txs))"

fun SplitEvidence_loop ::
  "('ev, 'err, 'css, 'msw) collaborators \<Rightarrow> 'css \<Rightarrow> 'ev list \<Rightarrow> 'err + 'css"
where
  "SplitEvidence_loop c writer [] = Inr writer"
| "SplitEvidence_loop c writer (ev # evd) =
     (case WriteEvidence c writer ev of
        Inl err \<Rightarrow> Inl err
      | Inr writer' \<Rightarrow> SplitEvidence_loop c writer' evd)"

definition SplitEvidence ::
  "('ev, 'err, 'css, 'msw) collaborators \<Rightarrow> 'ev list \<Rightarrow> 'err error + byte list list"
where
  "SplitEvidence c evd =
     (case SplitEvidence_loop c (NewContiguousShareSplitter c (EvidenceNamespaceID c)) evd of
        Inl err \<Rightarrow> Inl (ErrEvidence err)
      | Inr writer \<Rightarrow> Inr (RawShares (css_Export c writer)))"

subsection \<open>SplitMessages\<close>

text \<open>
  Lines 126 to 139. First the loop over the messages, \<open>i\<close> the position of \<open>msg\<close>;
  \<open>None\<close> is the panic of \<open>WriteNamespacedPaddedShares\<close>. The source does not look at
  the sign of \<open>paddedShareCount\<close>. The test of the number of indices comes before the
  writer is created.
\<close>

fun SplitMessages_loop ::
  "('ev, 'err, 'css, 'msw) collaborators \<Rightarrow> int \<Rightarrow> uint32 list option \<Rightarrow> 'msw \<Rightarrow> nat \<Rightarrow>
   Message list \<Rightarrow> 'msw option"
where
  "SplitMessages_loop c cursor indexes writer i [] = Some writer"
| "SplitMessages_loop c cursor indexes writer i (msg # msgs) =
     (let writer1 = Write c writer msg in
      case indexes of
        None \<Rightarrow> SplitMessages_loop c cursor indexes writer1 (i + 1) msgs
      | Some ixs \<Rightarrow>
          if length ixs > i + 1 then
            (let paddedShareCount = uint (ixs ! (i + 1)) - (Count c writer1 + cursor) in
             case WriteNamespacedPaddedShares c writer1 paddedShareCount of
               None \<Rightarrow> None
             | Some writer2 \<Rightarrow> SplitMessages_loop c cursor indexes writer2 (i + 1) msgs)
          else SplitMessages_loop c cursor indexes writer1 (i + 1) msgs)"

definition SplitMessages ::
  "('ev, 'err, 'css, 'msw) collaborators \<Rightarrow> int \<Rightarrow> uint32 list option \<Rightarrow> Message list \<Rightarrow>
   'err error + byte list list"
where
  "SplitMessages c cursor indexes msgs =
     (if (case indexes of None \<Rightarrow> False | Some ixs \<Rightarrow> length ixs \<noteq> length msgs) then
        Inl ErrIncorrectNumberOfIndexes
      else
        (case SplitMessages_loop c cursor indexes (NewMessageShareSplitter c) 0 msgs of
           None \<Rightarrow> Inl Panic
         | Some writer \<Rightarrow> Inr (RawShares (msw_Export c writer))))"

subsection \<open>Split\<close>

text \<open>
  Lines 48 to 60 of \<open>Split\<close>: the padding between the evidence and the first message.
  \<open>var padding [][]byte\<close> stays nil when there is no message. \<open>None\<close> is the panic of
  \<open>namespacedPaddedShares\<close>.
\<close>

definition alignment_padding ::
  "('ev, 'err, 'css, 'msw) collaborators \<Rightarrow> 'ev BlockData \<Rightarrow> int \<Rightarrow> byte list list \<Rightarrow>
   NamespacedShare list option"
where
  "alignment_padding c data currentShareCount evdShares =
     (case MessagesList data of
        [] \<Rightarrow> Some []
      | msg0 # _ \<Rightarrow>
          (case NextAlignedPowerOfTwo c currentShareCount
                  (MsgSharesUsed c (int (length (Data msg0))))
                  (sint (OriginalSquareSize data)) of
             (msgShareStart, _) \<Rightarrow>
               let ns = (if length evdShares > 0 then EvidenceNamespaceID c else TxNamespaceID c)
               in namespacedPaddedShares c ns (msgShareStart - currentShareCount)))"

text \<open>
  Line 44: \<open>msgIndexes != nil && int(msgIndexes[0]) != currentShareCount\<close>. Reading
  \<open>msgIndexes[0]\<close> of an empty slice that is not nil would panic.
\<close>

definition first_index_check :: "uint32 list option \<Rightarrow> int \<Rightarrow> 'err error option" where
  "first_index_check msgIndexes currentShareCount =
     (case msgIndexes of
        None \<Rightarrow> None
      | Some [] \<Rightarrow> Some Panic
      | Some (first # _) \<Rightarrow>
          if uint first \<noteq> currentShareCount then Some ErrUnexpectedFirstMessageShareIndex
          else None)"

text \<open>
  Lines 21 to 80. \<open>int\<close> is 64 bits wide: \<open>int(x)\<close> of a \<open>uint64\<close> is \<open>sint x\<close>, of a
  \<open>uint32\<close> it is \<open>uint x\<close>. \<open>sort.Slice\<close> with \<open><\<close> on \<open>uint32\<close> is \<open>sort\<close>, and leaves
  a nil slice nil. \<open>count1\<close> to \<open>count4\<close> are the values \<open>currentShareCount\<close> takes.
\<close>

definition Split ::
  "('ev, 'err, 'css, 'msw) collaborators \<Rightarrow> 'ev BlockData \<Rightarrow> 'err error + byte list list"
where
  "Split c data =
     (if OriginalSquareSize data = 0 \<or> \<not> powerOf2 (OriginalSquareSize data) then
        Inl (ErrSquareSizeNotPowerOfTwo (OriginalSquareSize data))
      else
        (let wantShareCount = sint (OriginalSquareSize data * OriginalSquareSize data);
             txShares = SplitTxs c (Txs data);
             count1 = int (length txShares)
         in (case SplitEvidence c (Evidence data) of
               Inl err \<Rightarrow> Inl err
             | Inr evdShares \<Rightarrow>
                 (let count2 = count1 + int (length evdShares);
                      msgIndexes = map_option sort (ExtractShareIndexes c (Txs data))
                  in (case first_index_check msgIndexes count2 of
                        Some err \<Rightarrow> Inl err
                      | None \<Rightarrow>
                          (case alignment_padding c data count2 evdShares of
                             None \<Rightarrow> Inl Panic
                           | Some padding \<Rightarrow>
                               (let count3 = count2 + int (length (RawShares padding))
                                in (case SplitMessages c count3 msgIndexes (MessagesList data) of
                                      Inl err \<Rightarrow> Inl err
                                    | Inr msgShares \<Rightarrow>
                                        (let count4 = count3 + int (length msgShares)
                                         in (case TailPaddingShares c (wantShareCount - count4) of
                                               None \<Rightarrow> Inl Panic
                                             | Some tailShares \<Rightarrow>
                                                 Inr (txShares @ evdShares @ RawShares padding @
                                                      msgShares @ RawShares tailShares)))))))))))"

subsection \<open>What the proofs ask of the padding helpers\<close>

text \<open>
  A helper that is asked for \<open>n\<close> shares returns, when it returns, exactly \<open>n\<close> of them,
  tagged with the namespace it was given. For a negative \<open>n\<close> that leaves only the panic.
\<close>

definition tail_padding_exact :: "('ev, 'err, 'css, 'msw) collaborators \<Rightarrow> bool" where
  "tail_padding_exact c =
     (\<forall>n shares. TailPaddingShares c n = Some shares \<longrightarrow> int (length shares) = n)"

definition padded_shares_exact :: "('ev, 'err, 'css, 'msw) collaborators \<Rightarrow> bool" where
  "padded_shares_exact c =
     (\<forall>ns n shares. namespacedPaddedShares c ns n = Some shares \<longrightarrow>
        int (length shares) = n \<and> (\<forall>s \<in> set shares. ID s = ns))"

subsection \<open>Reference collaborators\<close>

text \<open>
  Modelled from the spec: the share writers, the alignment resolver, the padding helpers
  and the unwrapping of a transaction are not under src/. The definitions below follow
  section 6 of the spec and serve as the concrete collaborators at which the theorems are
  instantiated. \<open>cap\<close> is the number of payload bytes of a share, which the spec leaves
  open.

  A namespace writer packs its payloads contiguously and cuts them into shares; a writer
  that received nothing exports nothing.
\<close>

definition split_bytes :: "nat \<Rightarrow> byte list \<Rightarrow> byte list list" where
  "split_bytes cap bs =
     map (\<lambda>i. take cap (drop (i * cap) bs)) [0..<(length bs + cap - 1) div cap]"

definition data_shares :: "nat \<Rightarrow> namespace_id \<Rightarrow> byte list \<Rightarrow> NamespacedShare list" where
  "data_shares cap ns bs =
     map (\<lambda>piece. \<lparr>Share = ns @ piece @ replicate (cap - length piece) 0, ID = ns\<rparr>)
       (split_bytes cap bs)"

text \<open>A message takes at least one share, under its own namespace.\<close>

definition message_shares :: "nat \<Rightarrow> Message \<Rightarrow> NamespacedShare list" where
  "message_shares cap msg =
     (if Data msg = [] then
        [\<lparr>Share = NamespaceID msg @ replicate cap 0, ID = NamespaceID msg\<rparr>]
      else data_shares cap (NamespaceID msg) (Data msg))"

text \<open>
  Padding: \<open>n\<close> empty shares under the namespace \<open>ns\<close>. A Go slice has no negative
  length, and the spec never has a negative number of shares emitted: asked for one, the
  helper panics.
\<close>

definition padded_shares :: "nat \<Rightarrow> namespace_id \<Rightarrow> int \<Rightarrow> NamespacedShare list option" where
  "padded_shares cap ns n =
     (if n < 0 then None
      else Some (replicate (nat n) \<lparr>Share = ns @ replicate cap 0, ID = ns\<rparr>))"

text \<open>
  The alignment resolver: the first multiple, at or after the cursor, of the largest power
  of two that does not exceed \<open>min msgLen k\<close>.
\<close>

fun largest_power_of_two :: "nat \<Rightarrow> nat" where
  "largest_power_of_two n = (if n < 2 then 1 else 2 * largest_power_of_two (n div 2))"

definition aligned_start :: "int \<Rightarrow> int \<Rightarrow> int \<Rightarrow> int \<times> bool" where
  "aligned_start cursor msgLen k =
     (let p = int (largest_power_of_two (nat (min msgLen k)))
      in (((cursor + p - 1) div p) * p, True))"

text \<open>
  A wrapped transaction is, here, the byte 255, one byte of share index and the inner
  transaction; any other transaction is not wrapped.
\<close>

definition unwrap_reference :: "Tx \<Rightarrow> MalleatedTx \<times> bool" where
  "unwrap_reference tx =
     (case tx of
        marker # index # inner \<Rightarrow>
          if marker = 255 then
            (\<lparr>OriginalTxHash = [], InnerTx = inner, ShareIndex = ucast index\<rparr>, True)
          else (\<lparr>OriginalTxHash = [], InnerTx = [], ShareIndex = 0\<rparr>, False)
      | _ \<Rightarrow> (\<lparr>OriginalTxHash = [], InnerTx = [], ShareIndex = 0\<rparr>, False))"

definition reference ::
  "nat \<Rightarrow> (byte list, unit, namespace_id \<times> byte list, NamespacedShare list) collaborators"
where
  "reference cap =
     \<lparr>TxNamespaceID = [0, 0, 0, 0, 0, 0, 0, 1],
      EvidenceNamespaceID = [0, 0, 0, 0, 0, 0, 0, 3],
      UnwrapMalleatedTx = unwrap_reference,
      NewContiguousShareSplitter = (\<lambda>ns. (ns, [])),
      WriteTx = (\<lambda>w tx. (fst w, snd w @ tx)),
      WriteEvidence = (\<lambda>w ev. Inr (fst w, snd w @ ev)),
      css_Export = (\<lambda>w. data_shares cap (fst w) (snd w)),
      NewMessageShareSplitter = [],
      Write = (\<lambda>w msg. w @ message_shares cap msg),
      Count = (\<lambda>w. int (length w)),
      WriteNamespacedPaddedShares =
        (\<lambda>w n. if w = [] then None
                else map_option (\<lambda>p. w @ p) (padded_shares cap (ID (last w)) n)),
      msw_Export = (\<lambda>w. w),
      MsgSharesUsed = (\<lambda>n. max 1 ((n + int cap - 1) div int cap)),
      NextAlignedPowerOfTwo = aligned_start,
      namespacedPaddedShares = padded_shares cap,
      TailPaddingShares = padded_shares cap [255, 255, 255, 255, 255, 255, 255, 254]\<rparr>"

text \<open>
  The example of section 8 of the spec, with two payload bytes to a share: one transaction
  that fills one share, no evidence, one message of two shares, in a square of width 4.
\<close>

definition example_message :: Message where
  "example_message = \<lparr>NamespaceID = [0, 0, 0, 0, 0, 0, 0, 9], Data = [1, 2, 3]\<rparr>"

definition example_block :: "byte list BlockData" where
  "example_block =
     \<lparr>Txs = [[1, 2]], Evidence = [], MessagesList = [example_message], OriginalSquareSize = 4\<rparr>"

text \<open>
  A block whose only transaction is wrapped and declares the share index 5, although the
  transaction shares end at 2; and one whose wrapped transaction declares the index 2 but
  which carries two messages.
\<close>

definition wrapped_block :: "byte list BlockData" where
  "wrapped_block =
     \<lparr>Txs = [[255, 5, 7]], Evidence = [], MessagesList = [example_message],
      OriginalSquareSize = 4\<rparr>"


text \<open>
  An empty block that declares the square size \<open>2 ^ 32\<close>; a message of one byte, which
  fits one share; and a block of square size 1 whose transaction and message need one
  share each.
\<close>

definition overflow_block :: "byte list BlockData" where
  "overflow_block = \<lparr>Txs = [], Evidence = [], MessagesList = [], OriginalSquareSize = 2 ^ 32\<rparr>"

definition short_message :: Message where
  "short_message = \<lparr>NamespaceID = [0, 0, 0, 0, 0, 0, 0, 9], Data = [7]\<rparr>"

definition overfull_block :: "byte list BlockData" where
  "overfull_block =
     \<lparr>Txs = [[1, 2]], Evidence = [], MessagesList = [short_message], OriginalSquareSize = 1\<rparr>"

text \<open>A block with one piece of evidence and no transaction before the example message.\<close>

definition evidence_block :: "byte list BlockData" where
  "evidence_block =
     \<lparr>Txs = [], Evidence = [[5]], MessagesList = [example_message], OriginalSquareSize = 4\<rparr>"

text \<open>
  The sixteen shares of the example: the transaction, one padding share under the
  transaction namespace, the two shares of the message, twelve tail padding shares.
\<close>

definition example_shares :: "byte list list" where
  "example_shares =
     [[0, 0, 0, 0, 0, 0, 0, 1, 1, 2], [0, 0, 0, 0, 0, 0, 0, 1, 0, 0],
      [0, 0, 0, 0, 0, 0, 0, 9, 1, 2], [0, 0, 0, 0, 0, 0, 0, 9, 3, 0]] @
     replicate 12 [255, 255, 255, 255, 255, 255, 255, 254, 0, 0]"

section \<open>Properties\<close>

subsection \<open>Arithmetic of the square size\<close>

lemma unat_two_power: "k < 64 \<Longrightarrow> unat ((2::uint64) ^ k) = 2 ^ k"
proof -
  assume k: "k < 64"
  have "(2::nat) ^ k < 2 ^ LENGTH(64)"
    by (rule power_strict_increasing) (use k in simp_all)
  moreover have "unat (word_of_nat (2 ^ k) :: uint64) = 2 ^ k mod 2 ^ LENGTH(64)"
    by (rule unat_of_nat)
  ultimately have "unat (word_of_nat (2 ^ k) :: uint64) = 2 ^ k"
    by (simp only: mod_less)
  then show ?thesis by simp
qed

lemma powerOf2_iff: "powerOf2 v \<longleftrightarrow> (\<exists>k. unat v = 2 ^ k)"
proof
  assume "powerOf2 v"
  then obtain k where "k < 64" "v = 2 ^ k" by (auto simp: powerOf2_def)
  then show "\<exists>k. unat v = 2 ^ k" using unat_two_power by blast
next
  assume "\<exists>k. unat v = 2 ^ k"
  then obtain k where k: "unat v = 2 ^ k" ..
  have "unat v < 2 ^ LENGTH(64)" by (rule unsigned_less)
  with k have "(2::nat) ^ k < 2 ^ LENGTH(64)" by simp
  then have "k < LENGTH(64)" by (rule power_less_imp_less_exp [rotated]) simp
  then have "k < 64" by simp
  moreover have "v = 2 ^ k"
  proof -
    have "word_of_nat (unat v) = (word_of_nat (2 ^ k) :: uint64)" using k by simp
    then show ?thesis by simp
  qed
  ultimately show "powerOf2 v" by (auto simp: powerOf2_def)
qed

subsection \<open>The smallest index comes first after sorting\<close>

lemma hd_sort_Min: "xs \<noteq> [] \<Longrightarrow> hd (sort xs) = Min (set xs)"
proof -
  assume ne: "xs \<noteq> []"
  then have "sort xs \<noteq> []" by (metis length_0_conv length_sort)
  then obtain y ys where s: "sort xs = y # ys" by (cases "sort xs") auto
  have "sorted (y # ys)" using sorted_sort [of xs] s by simp
  then have le: "\<forall>z \<in> set (y # ys). y \<le> z" by auto
  have st: "set (y # ys) = set xs" using s by (metis set_sort)
  have "Min (set xs) = y"
    by (rule Min_eqI) (use le st in auto)
  then show ?thesis using s by simp
qed

subsection \<open>ExtractShareIndexes\<close>

lemma ExtractShareIndexes_loop_zero:
  assumes "rawTx \<in> set txs" "UnwrapMalleatedTx c rawTx = (malleatedTx, True)"
    "ShareIndex malleatedTx = 0"
  shows "ExtractShareIndexes_loop c msgIndexes txs = None"
  using assms(1)
proof (induction txs arbitrary: msgIndexes)
  case Nil
  then show ?case by simp
next
  case (Cons tx txs)
  show ?case
  proof (cases "tx = rawTx")
    case True
    then show ?thesis using assms(2,3) by simp
  next
    case False
    with Cons.prems have "rawTx \<in> set txs" by simp
    then have "\<And>acc. ExtractShareIndexes_loop c acc txs = None" by (rule Cons.IH)
    then show ?thesis by (simp split: prod.splits)
  qed
qed

lemma ExtractShareIndexes_loop_unwrapped:
  assumes "\<forall>rawTx \<in> set txs. \<not> snd (UnwrapMalleatedTx c rawTx)"
  shows "ExtractShareIndexes_loop c msgIndexes txs = msgIndexes"
  using assms by (induction txs arbitrary: msgIndexes) (auto split: prod.splits)

lemma ExtractShareIndexes_loop_Some:
  "ExtractShareIndexes_loop c msgIndexes txs = Some ixs \<Longrightarrow>
     msgIndexes \<noteq> Some [] \<Longrightarrow> ixs \<noteq> []"
proof (induction txs arbitrary: msgIndexes)
  case Nil
  then show ?case by auto
next
  case (Cons tx txs)
  have app: "\<And>x. append_index msgIndexes x \<noteq> Some []"
    by (cases msgIndexes) auto
  from Cons.prems Cons.IH app show ?case
    by (auto split: prod.splits if_splits)
qed

text \<open>An index set that is not nil holds at least one index.\<close>

lemma ExtractShareIndexes_nonempty:
  "ExtractShareIndexes c txs = Some ixs \<Longrightarrow> ixs \<noteq> []"
  using ExtractShareIndexes_loop_Some [of c None txs ixs]
  by (simp add: ExtractShareIndexes_def)

text \<open>
  Claim C3. If any wrapped transaction of the list carries \<open>ShareIndex = 0\<close>, then
  \<open>ExtractShareIndexes\<close> returns nil for the whole list, whatever indices the other
  wrapped transactions carry.
\<close>

theorem ExtractShareIndexes_zero_index:
  assumes "rawTx \<in> set txs" "UnwrapMalleatedTx c rawTx = (malleatedTx, True)"
    "ShareIndex malleatedTx = 0"
  shows "ExtractShareIndexes c txs = None"
  unfolding ExtractShareIndexes_def using assms by (rule ExtractShareIndexes_loop_zero)

text \<open>
  Three transactions: one wrapped with index 5, one plain, one wrapped with index 0.
\<close>

theorem ExtractShareIndexes_zero_index_witness:
  "ExtractShareIndexes (reference 2) [[255, 5, 7], [9], [255, 0, 7]] = None"
proof (rule ExtractShareIndexes_zero_index
    [where rawTx = "[255, 0, 7]"
       and malleatedTx = "\<lparr>OriginalTxHash = [], InnerTx = [7], ShareIndex = 0\<rparr>"])
  show "[255, 0, 7] \<in> set [[255, 5, 7], [9], [255, 0, 7 :: byte]]" by simp
  show "UnwrapMalleatedTx (reference 2) [255, 0, 7] =
    (\<lparr>OriginalTxHash = [], InnerTx = [7], ShareIndex = 0\<rparr>, True)"
    by (simp add: reference_def unwrap_reference_def)
  show "ShareIndex \<lparr>OriginalTxHash = [], InnerTx = [7], ShareIndex = 0\<rparr> = 0" by simp
qed

text \<open>
  Claim C9. For a transaction list without any wrapped transaction, the empty list
  included, \<open>ExtractShareIndexes\<close> returns nil.
\<close>

theorem ExtractShareIndexes_no_wrapped:
  assumes "\<forall>rawTx \<in> set txs. \<not> snd (UnwrapMalleatedTx c rawTx)"
  shows "ExtractShareIndexes c txs = None"
  unfolding ExtractShareIndexes_def using assms by (rule ExtractShareIndexes_loop_unwrapped)

theorem ExtractShareIndexes_no_wrapped_witness:
  "ExtractShareIndexes (reference 2) [[1, 2], [254, 0, 7], [255]] = None \<and>
   ExtractShareIndexes (reference 2) [] = None"
proof
  have "\<forall>rawTx \<in> set [[1, 2], [254, 0, 7], [255 :: byte]].
          \<not> snd (UnwrapMalleatedTx (reference 2) rawTx)"
    by (simp add: reference_def unwrap_reference_def)
  then show "ExtractShareIndexes (reference 2) [[1, 2], [254, 0, 7], [255]] = None"
    by (rule ExtractShareIndexes_no_wrapped)
  have "\<forall>rawTx \<in> set ([] :: Tx list). \<not> snd (UnwrapMalleatedTx (reference 2) rawTx)"
    by simp
  then show "ExtractShareIndexes (reference 2) [] = None"
    by (rule ExtractShareIndexes_no_wrapped)
qed

subsection \<open>Which errors the stages of Split can return\<close>

lemma SplitEvidence_not_square_size:
  "SplitEvidence c evd \<noteq> Inl (ErrSquareSizeNotPowerOfTwo n)"
  by (simp add: SplitEvidence_def split: sum.splits)

lemma first_index_check_cases:
  "first_index_check ixs n = Some e \<Longrightarrow> e = Panic \<or> e = ErrUnexpectedFirstMessageShareIndex"
  by (auto simp: first_index_check_def split: option.splits list.splits if_splits)

lemma SplitMessages_errors:
  "SplitMessages c cursor ixs msgs = Inl e \<Longrightarrow> e = Panic \<or> e = ErrIncorrectNumberOfIndexes"
  by (auto simp: SplitMessages_def split: option.splits if_splits)

lemma Split_valid_size:
  assumes "OriginalSquareSize data \<noteq> 0" "powerOf2 (OriginalSquareSize data)"
  shows "Split c data \<noteq> Inl (ErrSquareSizeNotPowerOfTwo n)"
  using assms
  by (auto simp: Split_def Let_def SplitEvidence_not_square_size
      split: sum.splits option.splits
      dest: first_index_check_cases SplitMessages_errors)

lemma three_not_power: "(3::nat) \<noteq> 2 ^ k"
proof (cases k)
  case 0
  then show ?thesis by simp
next
  case (Suc j)
  have "even ((2::nat) ^ Suc j)" by simp
  moreover have "odd (3::nat)" by simp
  ultimately show ?thesis using Suc by metis
qed

subsection \<open>The square size\<close>

text \<open>
  Claim C8. \<open>Split\<close> fails with the error of the square size if and only if the declared
  square size is zero or not a power of two, and for every such size it returns that error
  and therefore no share sequence.
\<close>

theorem Split_invalid_square_size:
  "((\<exists>n. Split c data = Inl (ErrSquareSizeNotPowerOfTwo n)) \<longleftrightarrow>
      (unat (OriginalSquareSize data) = 0 \<or> \<not> (\<exists>k. unat (OriginalSquareSize data) = 2 ^ k)))
   \<and> ((unat (OriginalSquareSize data) = 0 \<or> \<not> (\<exists>k. unat (OriginalSquareSize data) = 2 ^ k)) \<longrightarrow>
        Split c data = Inl (ErrSquareSizeNotPowerOfTwo (OriginalSquareSize data)))"
proof -
  let ?bad = "unat (OriginalSquareSize data) = 0 \<or> \<not> (\<exists>k. unat (OriginalSquareSize data) = 2 ^ k)"
  have bad: "?bad \<longleftrightarrow> (OriginalSquareSize data = 0 \<or> \<not> powerOf2 (OriginalSquareSize data))"
    by (simp add: powerOf2_iff unat_eq_0)
  have 1: "?bad \<Longrightarrow> Split c data = Inl (ErrSquareSizeNotPowerOfTwo (OriginalSquareSize data))"
    unfolding bad by (simp add: Split_def)
  have 2: "\<not> ?bad \<Longrightarrow> Split c data \<noteq> Inl (ErrSquareSizeNotPowerOfTwo n)" for n
    unfolding bad using Split_valid_size [of data c n] by blast
  from 1 2 show ?thesis by blast
qed

text \<open>The example block with the square sizes 3 and 0.\<close>

theorem Split_invalid_square_size_witness:
  "Split (reference 2) (example_block\<lparr>OriginalSquareSize := 3\<rparr>) =
     Inl (ErrSquareSizeNotPowerOfTwo 3) \<and>
   Split (reference 2) (example_block\<lparr>OriginalSquareSize := 0\<rparr>) =
     Inl (ErrSquareSizeNotPowerOfTwo 0)"
proof
  have "unat (OriginalSquareSize (example_block\<lparr>OriginalSquareSize := 3\<rparr>)) = 0 \<or>
        \<not> (\<exists>k. unat (OriginalSquareSize (example_block\<lparr>OriginalSquareSize := 3\<rparr>)) = 2 ^ k)"
    using three_not_power by simp
  with Split_invalid_square_size
    [of "reference 2" "example_block\<lparr>OriginalSquareSize := 3\<rparr>"]
  show "Split (reference 2) (example_block\<lparr>OriginalSquareSize := 3\<rparr>) =
     Inl (ErrSquareSizeNotPowerOfTwo 3)"
    by simp
  have "unat (OriginalSquareSize (example_block\<lparr>OriginalSquareSize := 0\<rparr>)) = 0 \<or>
        \<not> (\<exists>k. unat (OriginalSquareSize (example_block\<lparr>OriginalSquareSize := 0\<rparr>)) = 2 ^ k)"
    by simp
  with Split_invalid_square_size
    [of "reference 2" "example_block\<lparr>OriginalSquareSize := 0\<rparr>"]
  show "Split (reference 2) (example_block\<lparr>OriginalSquareSize := 0\<rparr>) =
     Inl (ErrSquareSizeNotPowerOfTwo 0)"
    by simp
qed

lemma powerOf2_4: "powerOf2 4"
  unfolding powerOf2_def by (rule bexI [of _ 2]) simp_all

subsection \<open>The first message index\<close>

lemma first_index_check_mismatch:
  assumes "ixs \<noteq> []" "uint (Min (set ixs)) \<noteq> n"
  shows "first_index_check (map_option sort (Some ixs)) n = Some ErrUnexpectedFirstMessageShareIndex"
proof -
  from assms(1) have "sort ixs \<noteq> []" by (metis length_0_conv length_sort)
  then obtain y ys where s: "sort ixs = y # ys" by (cases "sort ixs") auto
  with hd_sort_Min [OF assms(1)] have "y = Min (set ixs)" by simp
  with s assms(2) show ?thesis by (simp add: first_index_check_def)
qed

text \<open>
  Claim C4. Once the square size is accepted and the evidence is written: if the extracted
  index set is not nil and its smallest value, which sorting puts first, differs from the
  cursor reached after the transaction and evidence shares, \<open>Split\<close> fails with
  \<open>ErrUnexpectedFirstMessageShareIndex\<close>.
\<close>

theorem Split_unexpected_first_index:
  fixes c :: "('ev, 'err, 'css, 'msw) collaborators"
  assumes "OriginalSquareSize data \<noteq> 0" "powerOf2 (OriginalSquareSize data)"
    and "SplitEvidence c (Evidence data) = Inr evdShares"
    and "ExtractShareIndexes c (Txs data) = Some indexes"
    and "uint (Min (set indexes)) \<noteq>
           int (length (SplitTxs c (Txs data))) + int (length evdShares)"
  shows "Split c data = Inl ErrUnexpectedFirstMessageShareIndex"
proof -
  from assms(4) have "indexes \<noteq> []" by (rule ExtractShareIndexes_nonempty)
  then have "first_index_check (map_option sort (Some indexes))
      (int (length (SplitTxs c (Txs data))) + int (length evdShares)) =
      Some (ErrUnexpectedFirstMessageShareIndex :: 'err error)"
    using assms(5) by (rule first_index_check_mismatch)
  with assms(1-4) show ?thesis by (simp add: Split_def Let_def)
qed

theorem Split_unexpected_first_index_witness:
  "Split (reference 2) wrapped_block = Inl ErrUnexpectedFirstMessageShareIndex"
proof (rule Split_unexpected_first_index [where evdShares = "[]" and indexes = "[5]"])
  show "OriginalSquareSize wrapped_block \<noteq> 0" by (simp add: wrapped_block_def)
  show "powerOf2 (OriginalSquareSize wrapped_block)" by (simp add: wrapped_block_def powerOf2_4)
  show "SplitEvidence (reference 2) (Evidence wrapped_block) = Inr []"
    by code_simp
  show "ExtractShareIndexes (reference 2) (Txs wrapped_block) = Some [5]"
    by code_simp
  show "uint (Min (set [5 :: uint32])) \<noteq>
          int (length (SplitTxs (reference 2) (Txs wrapped_block))) +
          int (length ([] :: byte list list))"
    by code_simp
qed

subsection \<open>SplitMessages and the number of indices\<close>





text \<open>
  Claim C10. For every cursor and every message list, \<open>SplitMessages\<close> with a nil index
  set returns shares and no error, and the shares are those of a writer that was only
  ever asked to write the messages: no padding is written between them.
\<close>

theorem SplitMessages_nil_indexes:
  "SplitMessages c cursor None msgs =
     Inr (RawShares (msw_Export c (foldl (Write c) (NewMessageShareSplitter c) msgs)))"
proof -
  have "SplitMessages_loop c cursor None writer i msgs = Some (foldl (Write c) writer msgs)"
    for writer i
    by (induction msgs arbitrary: writer i) simp_all
  then show ?thesis by (simp add: SplitMessages_def)
qed

theorem SplitMessages_nil_indexes_witness:
  "SplitMessages (reference 2) 7 None [example_message, example_message] =
     Inr [[0, 0, 0, 0, 0, 0, 0, 9, 1, 2], [0, 0, 0, 0, 0, 0, 0, 9, 3, 0],
          [0, 0, 0, 0, 0, 0, 0, 9, 1, 2], [0, 0, 0, 0, 0, 0, 0, 9, 3, 0]]"
proof -
  have "RawShares (msw_Export (reference 2)
          (foldl (Write (reference 2)) (NewMessageShareSplitter (reference 2))
             [example_message, example_message])) =
        [[0, 0, 0, 0, 0, 0, 0, 9, 1, 2], [0, 0, 0, 0, 0, 0, 0, 9, 3, 0],
         [0, 0, 0, 0, 0, 0, 0, 9, 1, 2], [0, 0, 0, 0, 0, 0, 0, 9, 3, 0]]"
    by code_simp
  with SplitMessages_nil_indexes [of "reference 2" 7 "[example_message, example_message]"]
  show ?thesis by simp
qed




subsection \<open>The stages of Split\<close>

text \<open>What a returned sequence says about each stage, and back.\<close>

lemma Split_Inr_D:
  fixes c :: "('ev, 'err, 'css, 'msw) collaborators"
  assumes "Split c data = Inr shares"
  shows "\<exists>evdShares padding msgShares tailShares.
    OriginalSquareSize data \<noteq> 0 \<and> powerOf2 (OriginalSquareSize data) \<and>
    SplitEvidence c (Evidence data) = Inr evdShares \<and>
    first_index_check (map_option sort (ExtractShareIndexes c (Txs data)))
      (int (length (SplitTxs c (Txs data))) + int (length evdShares)) = (None :: 'err error option) \<and>
    alignment_padding c data
      (int (length (SplitTxs c (Txs data))) + int (length evdShares)) evdShares = Some padding \<and>
    SplitMessages c
      (int (length (SplitTxs c (Txs data))) + int (length evdShares) + int (length padding))
      (map_option sort (ExtractShareIndexes c (Txs data))) (MessagesList data) = Inr msgShares \<and>
    TailPaddingShares c
      (sint (OriginalSquareSize data * OriginalSquareSize data) -
       (int (length (SplitTxs c (Txs data))) + int (length evdShares) + int (length padding) +
        int (length msgShares))) = Some tailShares \<and>
    shares = SplitTxs c (Txs data) @ evdShares @ RawShares padding @ msgShares @ RawShares tailShares"
  using assms
  by (auto simp: Split_def Let_def RawShares_def split: if_splits sum.splits option.splits)

lemma Split_stages:
  fixes c :: "('ev, 'err, 'css, 'msw) collaborators"
  assumes "OriginalSquareSize data \<noteq> 0" "powerOf2 (OriginalSquareSize data)"
    and "SplitEvidence c (Evidence data) = Inr evdShares"
    and "first_index_check (map_option sort (ExtractShareIndexes c (Txs data)))
      (int (length (SplitTxs c (Txs data))) + int (length evdShares)) = (None :: 'err error option)"
    and "alignment_padding c data
      (int (length (SplitTxs c (Txs data))) + int (length evdShares)) evdShares = Some padding"
    and "SplitMessages c
      (int (length (SplitTxs c (Txs data))) + int (length evdShares) + int (length padding))
      (map_option sort (ExtractShareIndexes c (Txs data))) (MessagesList data) = Inr msgShares"
  shows "Split c data =
    (case TailPaddingShares c
      (sint (OriginalSquareSize data * OriginalSquareSize data) -
       (int (length (SplitTxs c (Txs data))) + int (length evdShares) + int (length padding) +
        int (length msgShares))) of
       None \<Rightarrow> Inl Panic
     | Some tailShares \<Rightarrow>
         Inr (SplitTxs c (Txs data) @ evdShares @ RawShares padding @ msgShares @
              RawShares tailShares))"
  using assms by (simp add: Split_def Let_def RawShares_def)

text \<open>
  A returned sequence has as many shares as \<open>wantShareCount\<close>, the 64-bit product read
  as an \<open>int\<close>.
\<close>

lemma Split_length:
  assumes "tail_padding_exact c" "Split c data = Inr shares"
  shows "int (length shares) = sint (OriginalSquareSize data * OriginalSquareSize data)"
proof -
  from Split_Inr_D [OF assms(2)] obtain evdShares padding msgShares tailShares where
    t: "TailPaddingShares c
      (sint (OriginalSquareSize data * OriginalSquareSize data) -
       (int (length (SplitTxs c (Txs data))) + int (length evdShares) + int (length padding) +
        int (length msgShares))) = Some tailShares"
    and s: "shares = SplitTxs c (Txs data) @ evdShares @ RawShares padding @ msgShares @
        RawShares tailShares"
    by blast
  from assms(1) t have "int (length tailShares) =
      sint (OriginalSquareSize data * OriginalSquareSize data) -
       (int (length (SplitTxs c (Txs data))) + int (length evdShares) + int (length padding) +
        int (length msgShares))"
    unfolding tail_padding_exact_def by blast
  with s show ?thesis by (simp add: RawShares_def)
qed

subsection \<open>The wanted number of shares\<close>

lemma sint_square:
  fixes v :: uint64
  assumes "unat v \<le> 2 ^ 31"
  shows "sint (v * v) = int (unat v * unat v)"
proof -
  have "unat v * unat v \<le> 2 ^ 31 * 2 ^ 31"
    by (intro mult_mono) (use assms in simp_all)
  then have le: "unat v * unat v \<le> 2 ^ 62" by simp
  then have "unat v * unat v < 2 ^ LENGTH(64)" by simp
  then have u: "unat (v * v) = unat v * unat v" by (simp only: unat_mult_lem)
  have k1: "uint (v * v) = int (unat v * unat v)"
    using u by (simp only: uint_nat)
  have "int (unat v * unat v) \<le> int (2 ^ 62)"
    using le by (simp only: of_nat_le_iff)
  also have "int (2 ^ 62) < 2 ^ (LENGTH(64) - Suc 0)" by simp
  finally have k2: "uint (v * v) < 2 ^ (LENGTH(64) - Suc 0)" by (simp only: k1)
  have k3: "- (2 ^ (LENGTH(64) - Suc 0)) \<le> uint (v * v)"
    by (rule order_trans [of _ 0]) simp_all
  have "sint (v * v) = signed_take_bit (LENGTH(64) - Suc 0) (uint (v * v))"
    by (rule sint_uint)
  also have "\<dots> = uint (v * v)"
    using k3 k2 by (rule signed_take_bit_int_eq_self)
  finally show ?thesis by (simp only: k1)
qed

lemma powerOf2_below:
  assumes "powerOf2 v" "unat v < 2 ^ 32"
  shows "unat v \<le> 2 ^ 31"
proof -
  from assms(1) obtain k where k: "k < 64" "v = 2 ^ k" by (auto simp: powerOf2_def)
  then have u: "unat v = 2 ^ k" by (simp add: unat_two_power)
  with assms(2) have "(2::nat) ^ k < 2 ^ 32" by simp
  then have "k < 32" by (rule power_less_imp_less_exp [rotated]) simp
  then have "k \<le> 31" by simp
  then have "(2::nat) ^ k \<le> 2 ^ 31" by (intro power_increasing) simp_all
  with u show ?thesis by simp
qed

lemma powerOf2_square_wraps:
  assumes "powerOf2 v" "2 ^ 32 \<le> unat v"
  shows "v * v = 0"
proof -
  from assms(1) obtain k where k: "k < 64" "v = 2 ^ k" by (auto simp: powerOf2_def)
  then have u: "unat v = 2 ^ k" by (simp add: unat_two_power)
  with assms(2) have "(2::nat) ^ 32 \<le> 2 ^ k" by simp
  then have "32 \<le> k" by (rule power_le_imp_le_exp [rotated]) simp
  then have "\<not> k + k < LENGTH(64)" by simp
  then have "(2::uint64) ^ (k + k) = 0" by (simp only: exp_eq_zero_iff)
  with k(2) show ?thesis by (simp add: power_add)
qed

text \<open>
  A square size below \<open>2 ^ 32\<close> gives exactly the square of the size; from \<open>2 ^ 32\<close> on
  the product is 0 and only the empty sequence can be returned.
\<close>

lemma Split_length_no_overflow:
  assumes "tail_padding_exact c" "Split c data = Inr shares"
    and "unat (OriginalSquareSize data) < 2 ^ 32"
  shows "length shares = unat (OriginalSquareSize data) * unat (OriginalSquareSize data)"
proof -
  from Split_Inr_D [OF assms(2)] have "powerOf2 (OriginalSquareSize data)" by blast
  then have "unat (OriginalSquareSize data) \<le> 2 ^ 31" using assms(3) by (rule powerOf2_below)
  then have "sint (OriginalSquareSize data * OriginalSquareSize data) =
      int (unat (OriginalSquareSize data) * unat (OriginalSquareSize data))"
    by (rule sint_square)
  with Split_length [OF assms(1,2)] have "int (length shares) =
      int (unat (OriginalSquareSize data) * unat (OriginalSquareSize data))"
    by (simp only:)
  then show ?thesis by (simp only: of_nat_eq_iff)
qed

lemma Split_length_overflow:
  assumes "tail_padding_exact c" "Split c data = Inr shares"
    and "2 ^ 32 \<le> unat (OriginalSquareSize data)"
  shows "shares = []"
proof -
  from Split_Inr_D [OF assms(2)] have "powerOf2 (OriginalSquareSize data)" by blast
  then have "OriginalSquareSize data * OriginalSquareSize data = 0"
    using assms(3) by (rule powerOf2_square_wraps)
  with Split_length [OF assms(1,2)] show ?thesis by simp
qed

text \<open>The reference padding helpers return exactly what they are asked for.\<close>

lemma reference_tail_padding_exact: "tail_padding_exact (reference cap)"
  by (auto simp: tail_padding_exact_def reference_def padded_shares_def split: if_splits)

lemma reference_padded_shares_exact: "padded_shares_exact (reference cap)"
  by (auto simp: padded_shares_exact_def reference_def padded_shares_def split: if_splits)

lemma Split_example: "Split (reference 2) example_block = Inr example_shares"
  by code_simp

text \<open>
  Claim C1, at the input where the code departs from it. The square size \<open>2 ^ 32\<close> is a
  power of two and not zero; its square is \<open>2 ^ 64\<close>, which the 64-bit product wraps to
  0, and \<open>Split\<close> returns the empty sequence for the empty block.
\<close>

theorem Split_square_size_overflow:
  "OriginalSquareSize overflow_block \<noteq> 0 \<and>
   powerOf2 (OriginalSquareSize overflow_block) \<and>
   unat (OriginalSquareSize overflow_block) * unat (OriginalSquareSize overflow_block) =
     18446744073709551616 \<and>
   Split (reference 2) overflow_block = Inr []"
proof (intro conjI)
  show "OriginalSquareSize overflow_block \<noteq> 0" by (simp add: overflow_block_def)
  show p: "powerOf2 (OriginalSquareSize overflow_block)"
    unfolding overflow_block_def powerOf2_def by (rule bexI [of _ 32]) simp_all
  show "unat (OriginalSquareSize overflow_block) * unat (OriginalSquareSize overflow_block) =
     18446744073709551616"
    by (simp add: overflow_block_def)
  show "Split (reference 2) overflow_block = Inr []"
    by code_simp
qed

subsection \<open>The alignment padding\<close>

lemma alignment_padding_Some:
  assumes "padded_shares_exact c" "alignment_padding c data cursor evdShares = Some padding"
  shows "case MessagesList data of
           [] \<Rightarrow> padding = []
         | msg0 # _ \<Rightarrow>
             namespacedPaddedShares c
               (if evdShares \<noteq> [] then EvidenceNamespaceID c else TxNamespaceID c)
               (fst (NextAlignedPowerOfTwo c cursor (MsgSharesUsed c (int (length (Data msg0))))
                      (sint (OriginalSquareSize data))) - cursor) = Some padding \<and>
             int (length padding) =
               fst (NextAlignedPowerOfTwo c cursor (MsgSharesUsed c (int (length (Data msg0))))
                      (sint (OriginalSquareSize data))) - cursor \<and>
             (\<forall>s \<in> set padding.
                ID s = (if evdShares \<noteq> [] then EvidenceNamespaceID c else TxNamespaceID c))"
proof (cases "MessagesList data")
  case Nil
  with assms(2) show ?thesis by (simp add: alignment_padding_def)
next
  case (Cons msg0 rest)
  let ?start = "fst (NextAlignedPowerOfTwo c cursor (MsgSharesUsed c (int (length (Data msg0))))
                      (sint (OriginalSquareSize data)))"
  let ?ns = "if evdShares \<noteq> [] then EvidenceNamespaceID c else TxNamespaceID c"
  from assms(2) Cons have p: "namespacedPaddedShares c ?ns (?start - cursor) = Some padding"
    by (auto simp: alignment_padding_def Let_def split: prod.splits if_splits)
  with assms(1) have "int (length padding) = ?start - cursor \<and> (\<forall>s \<in> set padding. ID s = ?ns)"
    unfolding padded_shares_exact_def by blast
  with p Cons show ?thesis by simp
qed

text \<open>
  Claim C6. Whenever \<open>Split\<close> returns shares, they are the transaction shares, the
  evidence shares, the alignment padding, the message shares and the tail padding, in
  this order. With at least one message the alignment padding is what
  \<open>namespacedPaddedShares\<close> returns for \<open>alignedStart - cursor\<close> shares, \<open>alignedStart\<close>
  being the result of \<open>NextAlignedPowerOfTwo\<close> for the cursor, the share length of the
  first message and the square size as the source passes it; it has exactly that many
  shares, all tagged with the evidence namespace if evidence shares were written and with
  the transaction namespace otherwise. With no message there is no alignment padding.
\<close>

theorem Split_alignment_padding:
  fixes c :: "('ev, 'err, 'css, 'msw) collaborators"
  assumes "padded_shares_exact c" "Split c data = Inr shares"
  shows "\<exists>evdShares padding msgShares tailShares.
     SplitEvidence c (Evidence data) = Inr evdShares \<and>
     SplitMessages c
       (int (length (SplitTxs c (Txs data))) + int (length evdShares) + int (length padding))
       (map_option sort (ExtractShareIndexes c (Txs data))) (MessagesList data) = Inr msgShares \<and>
     shares = SplitTxs c (Txs data) @ evdShares @ RawShares padding @ msgShares @
              RawShares tailShares \<and>
     (case MessagesList data of
        [] \<Rightarrow> padding = []
      | msg0 # _ \<Rightarrow>
          namespacedPaddedShares c
            (if evdShares \<noteq> [] then EvidenceNamespaceID c else TxNamespaceID c)
            (fst (NextAlignedPowerOfTwo c
                    (int (length (SplitTxs c (Txs data))) + int (length evdShares))
                    (MsgSharesUsed c (int (length (Data msg0))))
                    (sint (OriginalSquareSize data))) -
             (int (length (SplitTxs c (Txs data))) + int (length evdShares))) = Some padding \<and>
          int (length padding) =
            fst (NextAlignedPowerOfTwo c
                   (int (length (SplitTxs c (Txs data))) + int (length evdShares))
                   (MsgSharesUsed c (int (length (Data msg0))))
                   (sint (OriginalSquareSize data))) -
            (int (length (SplitTxs c (Txs data))) + int (length evdShares)) \<and>
          (\<forall>s \<in> set padding.
             ID s = (if evdShares \<noteq> [] then EvidenceNamespaceID c else TxNamespaceID c)))"
proof -
  from Split_Inr_D [OF assms(2)] obtain evdShares padding msgShares tailShares where
    e: "SplitEvidence c (Evidence data) = Inr evdShares"
    and a: "alignment_padding c data
      (int (length (SplitTxs c (Txs data))) + int (length evdShares)) evdShares = Some padding"
    and m: "SplitMessages c
      (int (length (SplitTxs c (Txs data))) + int (length evdShares) + int (length padding))
      (map_option sort (ExtractShareIndexes c (Txs data))) (MessagesList data) = Inr msgShares"
    and s: "shares = SplitTxs c (Txs data) @ evdShares @ RawShares padding @ msgShares @
        RawShares tailShares"
    by blast
  from alignment_padding_Some [OF assms(1) a] e m s show ?thesis by blast
qed

text \<open>
  The example of the spec: one padding share, under the transaction namespace. After one
  share of evidence the padding share is under the evidence namespace.
\<close>

theorem Split_alignment_padding_witness:
  "(\<exists>evdShares padding msgShares tailShares.
     SplitEvidence (reference 2) (Evidence example_block) = Inr evdShares \<and>
     SplitMessages (reference 2)
       (int (length (SplitTxs (reference 2) (Txs example_block))) + int (length evdShares) +
        int (length padding))
       (map_option sort (ExtractShareIndexes (reference 2) (Txs example_block)))
       (MessagesList example_block) = Inr msgShares \<and>
     example_shares = SplitTxs (reference 2) (Txs example_block) @ evdShares @
       RawShares padding @ msgShares @ RawShares tailShares \<and>
     (case MessagesList example_block of
        [] \<Rightarrow> padding = []
      | msg0 # _ \<Rightarrow>
          namespacedPaddedShares (reference 2)
            (if evdShares \<noteq> [] then EvidenceNamespaceID (reference 2)
             else TxNamespaceID (reference 2))
            (fst (NextAlignedPowerOfTwo (reference 2)
                    (int (length (SplitTxs (reference 2) (Txs example_block))) +
                     int (length evdShares))
                    (MsgSharesUsed (reference 2) (int (length (Data msg0))))
                    (sint (OriginalSquareSize example_block))) -
             (int (length (SplitTxs (reference 2) (Txs example_block))) +
              int (length evdShares))) = Some padding \<and>
          int (length padding) =
            fst (NextAlignedPowerOfTwo (reference 2)
                   (int (length (SplitTxs (reference 2) (Txs example_block))) +
                    int (length evdShares))
                   (MsgSharesUsed (reference 2) (int (length (Data msg0))))
                   (sint (OriginalSquareSize example_block))) -
            (int (length (SplitTxs (reference 2) (Txs example_block))) +
             int (length evdShares)) \<and>
          (\<forall>s \<in> set padding.
             ID s = (if evdShares \<noteq> [] then EvidenceNamespaceID (reference 2)
                     else TxNamespaceID (reference 2))))) \<and>
   alignment_padding (reference 2) example_block 1 [] =
     Some [\<lparr>Share = [0, 0, 0, 0, 0, 0, 0, 1, 0, 0], ID = [0, 0, 0, 0, 0, 0, 0, 1]\<rparr>] \<and>
   alignment_padding (reference 2) evidence_block 1 [[0, 0, 0, 0, 0, 0, 0, 3, 5, 0]] =
     Some [\<lparr>Share = [0, 0, 0, 0, 0, 0, 0, 3, 0, 0], ID = [0, 0, 0, 0, 0, 0, 0, 3]\<rparr>]"
proof (intro conjI)
  show "\<exists>evdShares padding msgShares tailShares.
     SplitEvidence (reference 2) (Evidence example_block) = Inr evdShares \<and>
     SplitMessages (reference 2)
       (int (length (SplitTxs (reference 2) (Txs example_block))) + int (length evdShares) +
        int (length padding))
       (map_option sort (ExtractShareIndexes (reference 2) (Txs example_block)))
       (MessagesList example_block) = Inr msgShares \<and>
     example_shares = SplitTxs (reference 2) (Txs example_block) @ evdShares @
       RawShares padding @ msgShares @ RawShares tailShares \<and>
     (case MessagesList example_block of
        [] \<Rightarrow> padding = []
      | msg0 # _ \<Rightarrow>
          namespacedPaddedShares (reference 2)
            (if evdShares \<noteq> [] then EvidenceNamespaceID (reference 2)
             else TxNamespaceID (reference 2))
            (fst (NextAlignedPowerOfTwo (reference 2)
                    (int (length (SplitTxs (reference 2) (Txs example_block))) +
                     int (length evdShares))
                    (MsgSharesUsed (reference 2) (int (length (Data msg0))))
                    (sint (OriginalSquareSize example_block))) -
             (int (length (SplitTxs (reference 2) (Txs example_block))) +
              int (length evdShares))) = Some padding \<and>
          int (length padding) =
            fst (NextAlignedPowerOfTwo (reference 2)
                   (int (length (SplitTxs (reference 2) (Txs example_block))) +
                    int (length evdShares))
                   (MsgSharesUsed (reference 2) (int (length (Data msg0))))
                   (sint (OriginalSquareSize example_block))) -
            (int (length (SplitTxs (reference 2) (Txs example_block))) +
             int (length evdShares)) \<and>
          (\<forall>s \<in> set padding.
             ID s = (if evdShares \<noteq> [] then EvidenceNamespaceID (reference 2)
                     else TxNamespaceID (reference 2))))"
    using reference_padded_shares_exact Split_example by (rule Split_alignment_padding)
  show "alignment_padding (reference 2) example_block 1 [] =
     Some [\<lparr>Share = [0, 0, 0, 0, 0, 0, 0, 1, 0, 0], ID = [0, 0, 0, 0, 0, 0, 0, 1]\<rparr>]"
    by code_simp
  show "alignment_padding (reference 2) evidence_block 1 [[0, 0, 0, 0, 0, 0, 0, 3, 5, 0]] =
     Some [\<lparr>Share = [0, 0, 0, 0, 0, 0, 0, 3, 0, 0], ID = [0, 0, 0, 0, 0, 0, 0, 3]\<rparr>]"
    by code_simp
qed

subsection \<open>A square that is too small\<close>

lemma powerOf2_1: "powerOf2 1"
  unfolding powerOf2_def by (rule bexI [of _ 0]) simp_all

lemma tail_padding_negative:
  assumes "tail_padding_exact c" "n < 0"
  shows "TailPaddingShares c n = None"
proof (cases "TailPaddingShares c n")
  case None
  then show ?thesis .
next
  case (Some shares)
  with assms(1) have "int (length shares) = n" unfolding tail_padding_exact_def by blast
  with assms(2) show ?thesis by simp
qed

text \<open>
  Claim C2, as amended. \<open>Split\<close> does not compare the cursor with the wanted number of
  shares and has no error for a square that is too small: it asks \<open>TailPaddingShares\<close>
  for \<open>want - cursor\<close> shares as it is. When the cursor exceeds \<open>want\<close> and that helper
  never returns another number of shares than it was asked for, the call panics: \<open>Split\<close>
  returns neither shares nor an error value.
\<close>

theorem Split_overflow_panics:
  fixes c :: "('ev, 'err, 'css, 'msw) collaborators"
  assumes "tail_padding_exact c"
    and "OriginalSquareSize data \<noteq> 0" "powerOf2 (OriginalSquareSize data)"
    and "SplitEvidence c (Evidence data) = Inr evdShares"
    and "first_index_check (map_option sort (ExtractShareIndexes c (Txs data)))
      (int (length (SplitTxs c (Txs data))) + int (length evdShares)) = (None :: 'err error option)"
    and "alignment_padding c data
      (int (length (SplitTxs c (Txs data))) + int (length evdShares)) evdShares = Some padding"
    and "SplitMessages c
      (int (length (SplitTxs c (Txs data))) + int (length evdShares) + int (length padding))
      (map_option sort (ExtractShareIndexes c (Txs data))) (MessagesList data) = Inr msgShares"
    and "sint (OriginalSquareSize data * OriginalSquareSize data) <
      int (length (SplitTxs c (Txs data))) + int (length evdShares) + int (length padding) +
      int (length msgShares)"
  shows "Split c data = Inl Panic"
proof -
  have "TailPaddingShares c
      (sint (OriginalSquareSize data * OriginalSquareSize data) -
       (int (length (SplitTxs c (Txs data))) + int (length evdShares) + int (length padding) +
        int (length msgShares))) = None"
    using assms(1) by (rule tail_padding_negative) (use assms(8) in simp)
  with Split_stages [OF assms(2-7)] show ?thesis by simp
qed

text \<open>A square of one share for one transaction share and one message share.\<close>

theorem Split_overflow_panics_witness:
  "Split (reference 2) overfull_block = Inl Panic"
proof (rule Split_overflow_panics
    [where evdShares = "[]" and padding = "[]"
       and msgShares = "[[0, 0, 0, 0, 0, 0, 0, 9, 7, 0]]"])
  show "tail_padding_exact (reference 2)" by (rule reference_tail_padding_exact)
  show "OriginalSquareSize overfull_block \<noteq> 0" by (simp add: overfull_block_def)
  show "powerOf2 (OriginalSquareSize overfull_block)"
    by (simp add: overfull_block_def powerOf2_1)
  show "SplitEvidence (reference 2) (Evidence overfull_block) = Inr []" by code_simp
  show "first_index_check
      (map_option sort (ExtractShareIndexes (reference 2) (Txs overfull_block)))
      (int (length (SplitTxs (reference 2) (Txs overfull_block))) +
       int (length ([] :: byte list list))) = (None :: unit error option)"
    by code_simp
  show "alignment_padding (reference 2) overfull_block
      (int (length (SplitTxs (reference 2) (Txs overfull_block))) +
       int (length ([] :: byte list list))) [] = Some []"
    by code_simp
  show "SplitMessages (reference 2)
      (int (length (SplitTxs (reference 2) (Txs overfull_block))) +
       int (length ([] :: byte list list)) + int (length ([] :: NamespacedShare list)))
      (map_option sort (ExtractShareIndexes (reference 2) (Txs overfull_block)))
      (MessagesList overfull_block) =
      Inr [[0, 0, 0, 0, 0, 0, 0, 9, 7, 0]]"
    by code_simp
  show "sint (OriginalSquareSize overfull_block * OriginalSquareSize overfull_block) <
      int (length (SplitTxs (reference 2) (Txs overfull_block))) +
      int (length ([] :: byte list list)) + int (length ([] :: NamespacedShare list)) +
      int (length [[0, 0, 0, 0, 0, 0, 0, 9, 7, 0 :: byte]])"
    by code_simp
qed

text \<open>
  The claim as stated fails there: \<open>want\<close> is 1, the cursor reaches 2, and \<open>Split\<close>
  returns no error.
\<close>

theorem Split_square_overflow_counterexample:
  "sint (OriginalSquareSize overfull_block * OriginalSquareSize overfull_block) = 1 \<and>
   length (SplitTxs (reference 2) (Txs overfull_block)) = 1 \<and>
   SplitEvidence (reference 2) (Evidence overfull_block) = Inr [] \<and>
   alignment_padding (reference 2) overfull_block 1 [] = Some [] \<and>
   SplitMessages (reference 2) 1 None (MessagesList overfull_block) =
     Inr [[0, 0, 0, 0, 0, 0, 0, 9, 7, 0]] \<and>
   \<not> returns_error (Split (reference 2) overfull_block)"
  by code_simp

end
